theory Spec2Isabelle
  imports Complex_Main "HOL-Library.AList" "HOL-Library.Char_ord" "HOL-Library.List_Lexorder"
begin

section \<open>The data model of gofpdf\<close>

text \<open>
  The Go package keeps one mutable \<^verbatim>\<open>Fpdf\<close> struct; every method takes it as receiver
  \<^verbatim>\<open>p\<close> and mutates it. The model passes the struct as a record and returns the
  updated record. A call to \<^verbatim>\<open>panicError\<close> (a Go panic) is the value \<open>Inl (Panic msg)\<close>
  of a sum type, a normal return is \<open>Inr\<close>.

  Conventions of the embedding:
  \<^item> \<^verbatim>\<open>float64\<close> is \<open>real\<close>: arithmetic is exact, rounding, infinities and NaN are not
    modelled (in HOL \<open>x / 0 = 0\<close>, in Go it is an infinity or NaN).
  \<^item> \<^verbatim>\<open>int\<close> is \<open>int\<close>: the shipped width tables hold values below 1000 and the length
    of a Go string is bounded by memory, so no sum of the code reaches \<open>2^63\<close>.
  \<^item> a Go \<^verbatim>\<open>string\<close> is a sequence of bytes, here \<open>string\<close> (a list of \<open>char\<close>, one per
    byte); \<^verbatim>\<open>[256]int\<close> indexed by a byte is a function \<open>char \<Rightarrow> int\<close>.
  \<^item> a Go map that is only read with the zero value as default is a total function; a map
    whose membership or size is read is an association list with distinct keys.
  \<^item> field names are the source's; the one- and two-letter fields carry the receiver as a
    prefix (\<open>p_x\<close> for \<^verbatim>\<open>p.x\<close>, \<open>f_cw\<close> for \<^verbatim>\<open>font.cw\<close>) so that they do not capture variables.
  \<^item> the result of \<^verbatim>\<open>fmt.Sprintf\<close> with a float verb is kept as a list of fragments
    (\<open>frag\<close>): literal text and numbers still to be formatted.
\<close>

datatype error = Panic string

text \<open>A value of Go's \<^verbatim>\<open>interface{}\<close>, for the dynamic types the code inspects.\<close>

datatype iface = INil | IInt int | IFloat real | IStr string | IBool bool

datatype frag = Lit string | F2 real | F3 real | D int

text \<open>\<^verbatim>\<open>map[int]interface{}\<close> values of a font's Unicode table: \<^verbatim>\<open>pdfUVRange{start, count}\<close> or an int.\<close>

datatype uvval = UVRange int int | UVInt int

record pdfFont =
  f_typ :: string
  f_name :: string
  f_up :: real
  f_ut :: real
  f_cw :: "char \<Rightarrow> int"
  f_enc :: string
  f_uv :: "(int \<times> uvval) list"
  f_n :: int
  f_i :: int

record pdfImage =
  img_w :: int
  img_h :: int
  img_cs :: string
  img_bpc :: int
  img_f :: string
  img_data :: string
  img_n :: int
  img_i :: int

text \<open>One entry of \<^verbatim>\<open>pageInfo[i]\<close>, a \<^verbatim>\<open>map[string]interface{}\<close> with the keys "size", "rotation", "n".\<close>

record pinfo =
  pi_size :: "(real \<times> real) option"
  pi_rotation :: "int option"
  pi_n :: "int option"

record Fpdf =
  state :: int
  page :: int
  p_n :: int
  offsets :: "int \<Rightarrow> int"
  buffer :: string
  pages :: "int \<Rightarrow> frag list list"
  compress :: bool
  p_k :: real
  defOrientation :: string
  curOrientation :: string
  stdPageSizes :: "(string \<times> (real \<times> real)) list"
  defPageSize :: "real \<times> real"
  curPageSize :: "real \<times> real"
  curRotation :: int
  pageInfo :: "int \<Rightarrow> pinfo"
  wPt :: real
  hPt :: real
  p_w :: real
  p_h :: real
  lMargin :: real
  tMargin :: real
  rMargin :: real
  bMargin :: real
  cMargin :: real
  p_x :: real
  p_y :: real
  lasth :: real
  lineWidth :: real
  coreFonts :: "string list"
  fonts :: "(string \<times> pdfFont) list"
  fontFamily :: string
  fontStyle :: string
  underline :: bool
  currentFont :: "pdfFont option"
  fontSizePt :: real
  fontSize :: real
  drawColor :: string
  fillColor :: string
  textColor :: string
  colorFlag :: bool
  withAlpha :: bool
  p_ws :: real
  images :: "(string \<times> pdfImage) list"
  pageLinks :: "int \<Rightarrow> iface list list"
  links :: "int \<Rightarrow> real \<times> real"
  autoPageBreak :: bool
  pageBreakTrigger :: real
  inHeader :: bool
  inFooter :: bool
  aliasNbPages :: string
  zoomMode :: iface
  layoutMode :: string
  metadata :: "(string \<times> string) list"
  pdfVersion :: string
  assetFonts :: "(string \<times> pdfFont) list"
  lastError :: string

section \<open>Font metrics\<close>

text \<open>
  \<^verbatim>\<open>GetStringWidth\<close>: 0 without a font; otherwise the loop adds \<^verbatim>\<open>cw[c]\<close> for every byte and
  the result is \<^verbatim>\<open>float64(w) * p.fontSize / 1000\<close>.
\<close>

definition GetStringWidth :: "Fpdf \<Rightarrow> string \<Rightarrow> real" where
  "GetStringWidth p s =
     (case currentFont p of
        None \<Rightarrow> 0
      | Some f \<Rightarrow> real_of_int (foldl (\<lambda>w c. w + f_cw f c) 0 s) * fontSize p / 1000)"

definition charWidth :: "Fpdf \<Rightarrow> char \<Rightarrow> int" where
  "charWidth p c =
     (case currentFont p of
        None \<Rightarrow> 0
      | Some f \<Rightarrow> (let w = f_cw f c in if w = 0 then f_cw f (CHR ''?'') else w))"



section \<open>Strings and formatting\<close>

text \<open>
  The functions of Go's \<^verbatim>\<open>strings\<close> package that the code calls, on byte strings. Case mapping
  and white space cover ASCII: a multi-byte UTF-8 letter or space (which Go would map or trim)
  is left as it is; every token the code compares against is ASCII.
\<close>

definition lower_char :: "char \<Rightarrow> char" where
  "lower_char c = (let n = (of_char c :: nat) in if 65 \<le> n \<and> n \<le> 90 then char_of (n + 32) else c)"

definition upper_char :: "char \<Rightarrow> char" where
  "upper_char c = (let n = (of_char c :: nat) in if 97 \<le> n \<and> n \<le> 122 then char_of (n - 32) else c)"

definition ToLower :: "string \<Rightarrow> string" where
  "ToLower s = map lower_char s"

definition ToUpper :: "string \<Rightarrow> string" where
  "ToUpper s = map upper_char s"

definition isSpace :: "char \<Rightarrow> bool" where
  "isSpace c = ((of_char c :: nat) \<in> {9, 10, 11, 12, 13, 32})"

definition TrimSpace :: "string \<Rightarrow> string" where
  "TrimSpace s = rev (dropWhile isSpace (rev (dropWhile isSpace s)))"

fun HasPrefix :: "string \<Rightarrow> string \<Rightarrow> bool" where
  "HasPrefix s [] = True"
| "HasPrefix [] (c # cs) = False"
| "HasPrefix (x # xs) (c # cs) = (x = c \<and> HasPrefix xs cs)"

fun Contains :: "string \<Rightarrow> string \<Rightarrow> bool" where
  "Contains [] sub = (sub = [])"
| "Contains (x # xs) sub = (HasPrefix (x # xs) sub \<or> Contains xs sub)"

text \<open>
  \<^verbatim>\<open>strings.ReplaceAll\<close> for a non-empty \<^verbatim>\<open>old\<close>: every call of the code passes a one-byte
  literal, or \<^verbatim>\<open>aliasNbPages\<close> behind the guard \<^verbatim>\<open>p.aliasNbPages != ""\<close>. (For an empty \<^verbatim>\<open>old\<close> Go
  inserts \<^verbatim>\<open>new\<close> around every rune; the model returns the string as it is.)
\<close>

function ReplaceAll :: "string \<Rightarrow> string \<Rightarrow> string \<Rightarrow> string" where
  "ReplaceAll s old new =
     (if s = [] \<or> old = [] then s
      else if HasPrefix s old then new @ ReplaceAll (drop (length old) s) old new
      else hd s # ReplaceAll (tl s) old new)"
  by pat_completeness auto
termination
  by (relation "measure (\<lambda>(s, old, new). length s)") auto

declare ReplaceAll.simps [simp del]

text \<open>\<^verbatim>\<open>strings.Count(s, " ")\<close>: the number of occurrences of one byte.\<close>

definition Count :: "string \<Rightarrow> char \<Rightarrow> int" where
  "Count s c = int (length (filter (\<lambda>x. x = c) s))"

text \<open>\<^verbatim>\<open>string(b)\<close> for a byte \<^verbatim>\<open>b\<close>: the UTF-8 encoding of the code point \<^verbatim>\<open>b\<close>.\<close>

definition string_of_byte :: "char \<Rightarrow> string" where
  "string_of_byte c =
     (let n = (of_char c :: nat) in
      if n < 128 then [c] else [char_of (192 + n div 64), char_of (128 + n mod 64)])"

text \<open>\<^verbatim>\<open>strconv.Itoa\<close>, and the verbs \<^verbatim>\<open>%d\<close>, \<^verbatim>\<open>%010d\<close>, \<^verbatim>\<open>%02X\<close>, \<^verbatim>\<open>%04X\<close> of \<^verbatim>\<open>fmt.Sprintf\<close> on an int.\<close>

definition digit_char :: "nat \<Rightarrow> char" where
  "digit_char d = (if d < 10 then char_of (48 + d) else char_of (55 + d))"

function digits :: "nat \<Rightarrow> nat \<Rightarrow> string" where
  "digits b m = (if b < 2 \<or> m < b then [digit_char m] else digits b (m div b) @ [digit_char (m mod b)])"
  by pat_completeness auto
termination
  by (relation "measure (\<lambda>(b, m). m)") auto

declare digits.simps [simp del]

definition Itoa :: "int \<Rightarrow> string" where
  "Itoa v = (if v < 0 then CHR ''-'' # digits 10 (nat (- v)) else digits 10 (nat v))"

definition fmt_padded :: "nat \<Rightarrow> nat \<Rightarrow> int \<Rightarrow> string" where
  "fmt_padded b width v =
     (let sgn = (if v < 0 then ''-'' else []);
          ds = digits b (nat \<bar>v\<bar>)
      in sgn @ replicate (width - length sgn - length ds) (CHR ''0'') @ ds)"

text \<open>
  What the Go runtime and standard library supply and the model takes as parameters: the
  float verbs of \<^verbatim>\<open>fmt.Sprintf\<close>, \<^verbatim>\<open>zlib\<close>, the decoding of a string into runes, the formatted
  \<^verbatim>\<open>time.Now()\<close>, and the order in which \<^verbatim>\<open>range\<close> visits the entries of a map (Go leaves it
  unspecified; each \<^verbatim>\<open>range\<close> of the code has its own function).
\<close>

record env =
  fmtF2 :: "real \<Rightarrow> string"
  fmtF3 :: "real \<Rightarrow> string"
  zlibCompress :: "string \<Rightarrow> string"
  runes :: "string \<Rightarrow> nat list"
  nowFormatted :: string
  rangeFonts :: "(string \<times> pdfFont) list \<Rightarrow> (string \<times> pdfFont) list"
  rangeFonts2 :: "(string \<times> pdfFont) list \<Rightarrow> (string \<times> pdfFont) list"
  rangeImages :: "(string \<times> pdfImage) list \<Rightarrow> (string \<times> pdfImage) list"
  rangeImages2 :: "(string \<times> pdfImage) list \<Rightarrow> (string \<times> pdfImage) list"

fun render_frag :: "env \<Rightarrow> frag \<Rightarrow> string" where
  "render_frag e (Lit s) = s"
| "render_frag e (F2 r) = fmtF2 e r"
| "render_frag e (F3 r) = fmtF3 e r"
| "render_frag e (D v) = Itoa v"

definition render :: "env \<Rightarrow> frag list \<Rightarrow> string" where
  "render e fs = concat (map (render_frag e) fs)"

text \<open>The error monad of the model: a panic ends the call.\<close>

definition bindE :: "error + 'a \<Rightarrow> ('a \<Rightarrow> error + 'b) \<Rightarrow> error + 'b" where
  "bindE m f = (case m of Inl e \<Rightarrow> Inl e | Inr v \<Rightarrow> f v)"

definition panicError :: "string \<Rightarrow> error + 'a" where
  "panicError msg = Inl (Panic (''fpdf error: '' @ msg))"

text \<open>Indexing and slicing of a Go string; out of range is a run-time panic.\<close>

definition byteAt :: "string \<Rightarrow> int \<Rightarrow> error + char" where
  "byteAt s i =
     (if 0 \<le> i \<and> i < int (length s) then Inr (s ! nat i)
      else Inl (Panic ''runtime error: index out of range''))"

definition slice :: "string \<Rightarrow> int \<Rightarrow> int \<Rightarrow> error + string" where
  "slice s j i =
     (if 0 \<le> j \<and> j \<le> i \<and> i \<le> int (length s) then Inr (take (nat (i - j)) (drop (nat j) s))
      else Inl (Panic ''runtime error: slice bounds out of range''))"

section \<open>Construction: Reset and NewFpdf\<close>

text \<open>The three fonts of \<^verbatim>\<open>translatedFPDFFonts\<close> (fonts.go).\<close>

definition courier_uv :: "(int \<times> uvval) list" where
  "courier_uv =
     [(0, UVRange 0 128), (128, UVInt 8364), (130, UVInt 8218), (131, UVInt 402),
      (132, UVInt 8222), (133, UVInt 8230), (134, UVRange 8224 2), (136, UVInt 710),
      (137, UVInt 8240), (138, UVInt 352), (139, UVInt 8249), (140, UVInt 338),
      (142, UVInt 381), (145, UVRange 8216 2), (147, UVRange 8220 2), (149, UVInt 8226),
      (150, UVRange 8211 2), (152, UVInt 732), (153, UVInt 8482), (154, UVInt 353),
      (155, UVInt 8250), (156, UVInt 339), (158, UVInt 382), (159, UVInt 376),
      (160, UVRange 160 96)]"

definition translatedFPDFFonts :: "(string \<times> pdfFont) list" where
  "translatedFPDFFonts =
     [(''courier.php'', \<lparr> f_typ = ''Core'', f_name = ''Courier'', f_up = -100, f_ut = 50,
         f_cw = (\<lambda>c. 600), f_enc = ''cp1252'', f_uv = courier_uv, f_n = 0, f_i = 0 \<rparr>),
      (''courierb.php'', \<lparr> f_typ = ''Core'', f_name = ''Courier-Bold'', f_up = -100, f_ut = 50,
         f_cw = (\<lambda>c. 600), f_enc = ''cp1252'', f_uv = [], f_n = 0, f_i = 0 \<rparr>),
      (''helvetica.php'', \<lparr> f_typ = ''Core'', f_name = ''Helvetica'', f_up = -100, f_ut = 50,
         f_cw = (\<lambda>c. 500), f_enc = ''cp1252'', f_uv = [], f_n = 0, f_i = 0 \<rparr>)]"

definition setError :: "Fpdf \<Rightarrow> string \<Rightarrow> Fpdf" where
  "setError p msg = p\<lparr>lastError := msg\<rparr>"

definition getPageSize :: "Fpdf \<Rightarrow> string \<Rightarrow> real \<times> real" where
  "getPageSize p psize =
     (let s = ToLower (TrimSpace psize);
          s = (if s = [] then ''a4'' else s)
      in case map_of (stdPageSizes p) s of
           Some v \<Rightarrow> v
         | None \<Rightarrow> (case map_of (stdPageSizes p) ''a4'' of Some v \<Rightarrow> v | None \<Rightarrow> (0, 0)))"

definition SetMargins :: "Fpdf \<Rightarrow> real \<Rightarrow> real \<Rightarrow> real option \<Rightarrow> Fpdf" where
  "SetMargins p left tp right =
     p\<lparr>lMargin := left, tMargin := tp,
       rMargin := (case right of None \<Rightarrow> left | Some r \<Rightarrow> r)\<rparr>"

definition SetAutoPageBreak :: "Fpdf \<Rightarrow> bool \<Rightarrow> real \<Rightarrow> Fpdf" where
  "SetAutoPageBreak p auto margin =
     p\<lparr>autoPageBreak := auto, bMargin := margin, pageBreakTrigger := p_h p - margin\<rparr>"

definition SetDisplayMode :: "Fpdf \<Rightarrow> iface \<Rightarrow> string \<Rightarrow> Fpdf" where
  "SetDisplayMode p zoom layout = p\<lparr>zoomMode := zoom, layoutMode := ToLower layout\<rparr>"

definition SetCompression :: "Fpdf \<Rightarrow> bool \<Rightarrow> Fpdf" where
  "SetCompression p c = p\<lparr>compress := c\<rparr>"

text \<open>
  \<^verbatim>\<open>Reset\<close>, statement by statement, in the five blocks of the source: the field
  initialisers, the \<^verbatim>\<open>switch\<close> on the unit, the table of page sizes, the page size and
  orientation, and the layout defaults. It has no failing path and returns nothing: an unknown
  unit stores a message with \<^verbatim>\<open>setError\<close> and takes the millimetre factor, an unknown page
  size takes A4 in \<^verbatim>\<open>getPageSize\<close>, and the last statement empties \<^verbatim>\<open>lastError\<close>.
\<close>

definition Reset_fields :: "Fpdf \<Rightarrow> Fpdf" where
  "Reset_fields p =
     p\<lparr>state := 0, page := 0, p_n := 2, offsets := (\<lambda>_. 0), buffer := [],
       pages := (\<lambda>_. []), pageInfo := (\<lambda>_. \<lparr>pi_size = None, pi_rotation = None, pi_n = None\<rparr>),
       fonts := [], images := [], links := (\<lambda>_. (0, 0)), pageLinks := (\<lambda>_. []),
       inHeader := False, inFooter := False, lasth := 0, fontFamily := [],
       fontStyle := [], fontSizePt := 12, underline := False, drawColor := ''0 G'',
       fillColor := ''0 g'', textColor := ''0 g'', colorFlag := False,
       withAlpha := False, p_ws := 0,
       coreFonts := [''courier'', ''helvetica'', ''times'', ''symbol'', ''zapfdingbats''],
       assetFonts := translatedFPDFFonts\<rparr>"

definition Reset_unit :: "Fpdf \<Rightarrow> string \<Rightarrow> Fpdf" where
  "Reset_unit p unit =
     (let u = ToLower (TrimSpace unit) in
      if u = ''pt'' then p\<lparr>p_k := 1\<rparr>
      else if u = ''mm'' then p\<lparr>p_k := 72 / 25.4\<rparr>
      else if u = ''cm'' then p\<lparr>p_k := 72 / 2.54\<rparr>
      else if u = ''in'' then p\<lparr>p_k := 72\<rparr>
      else (setError p (''incorrect unit: '' @ unit))\<lparr>p_k := 72 / 25.4\<rparr>)"

definition Reset_sizes :: "Fpdf \<Rightarrow> Fpdf" where
  "Reset_sizes p =
     p\<lparr>stdPageSizes :=
         [(''a3'', (841.89 / p_k p, 1190.55 / p_k p)),
          (''a4'', (595.28 / p_k p, 841.89 / p_k p)),
          (''a5'', (420.94 / p_k p, 595.28 / p_k p)),
          (''letter'', (612 / p_k p, 792 / p_k p)),
          (''legal'', (612 / p_k p, 1008 / p_k p))]\<rparr>"

definition Reset_page :: "Fpdf \<Rightarrow> string \<Rightarrow> string \<Rightarrow> Fpdf" where
  "Reset_page p orientation psize =
     (let sz = getPageSize p psize;
          ori = ToLower (TrimSpace orientation);
          portrait = (ori = [] \<or> ori = ''p'' \<or> ori = ''portrait'');
          w = (if portrait then fst sz else snd sz);
          h = (if portrait then snd sz else fst sz);
          d = (if portrait then ''P'' else ''L'')
      in p\<lparr>defPageSize := sz, curPageSize := sz, defOrientation := d, p_w := w, p_h := h,
           curOrientation := d, wPt := w * p_k p, hPt := h * p_k p, curRotation := 0\<rparr>)"

definition Reset_layout :: "Fpdf \<Rightarrow> Fpdf" where
  "Reset_layout p =
     (let margin = 28.35 / p_k p in
      (SetCompression
        (SetDisplayMode
          (SetAutoPageBreak
            ((SetMargins p margin margin None)\<lparr>cMargin := margin / 10, lineWidth := 0.567 / p_k p\<rparr>)
            True (2 * margin))
          (IStr ''default'') ''default'')
        True)
       \<lparr>metadata := [(''Producer'', ''G3pix Gofpdf Library'')], pdfVersion := ''1.3'',
        lastError := []\<rparr>)"

definition Reset :: "Fpdf \<Rightarrow> string \<Rightarrow> string \<Rightarrow> string \<Rightarrow> Fpdf" where
  "Reset p orientation unit psize =
     Reset_layout (Reset_page (Reset_sizes (Reset_unit (Reset_fields p) unit)) orientation psize)"

text \<open>The zero value of the struct, \<^verbatim>\<open>&Fpdf{}\<close>.\<close>

definition zeroFpdf :: Fpdf where
  "zeroFpdf = \<lparr> state = 0, page = 0, p_n = 0, offsets = (\<lambda>_. 0), buffer = [],
     pages = (\<lambda>_. []), compress = False, p_k = 0, defOrientation = [], curOrientation = [],
     stdPageSizes = [], defPageSize = (0, 0), curPageSize = (0, 0), curRotation = 0,
     pageInfo = (\<lambda>_. \<lparr>pi_size = None, pi_rotation = None, pi_n = None\<rparr>),
     wPt = 0, hPt = 0, p_w = 0, p_h = 0, lMargin = 0, tMargin = 0, rMargin = 0, bMargin = 0,
     cMargin = 0, p_x = 0, p_y = 0, lasth = 0, lineWidth = 0, coreFonts = [], fonts = [],
     fontFamily = [], fontStyle = [], underline = False, currentFont = None, fontSizePt = 0,
     fontSize = 0, drawColor = [], fillColor = [], textColor = [], colorFlag = False,
     withAlpha = False, p_ws = 0, images = [], pageLinks = (\<lambda>_. []), links = (\<lambda>_. (0, 0)),
     autoPageBreak = False, pageBreakTrigger = 0, inHeader = False, inFooter = False,
     aliasNbPages = [], zoomMode = INil, layoutMode = [], metadata = [], pdfVersion = [],
     assetFonts = [], lastError = [] \<rparr>"

definition NewFpdf :: "string \<Rightarrow> string \<Rightarrow> string \<Rightarrow> Fpdf" where
  "NewFpdf orientation unit psize = Reset zeroFpdf orientation unit psize"


section \<open>Pages, fonts and the page life cycle\<close>

text \<open>
  \<^verbatim>\<open>out\<close> appends an operator to the open page; in any state but 2 it panics (the \<^verbatim>\<open>switch\<close>
  has no default: another value does nothing).
\<close>

definition out :: "Fpdf \<Rightarrow> frag list \<Rightarrow> error + Fpdf" where
  "out p s =
     (if state p = 2 then Inr (p\<lparr>pages := (pages p)(page p := pages p (page p) @ [s])\<rparr>)
      else if state p = 0 then panicError ''no page has been added yet''
      else if state p = 1 then panicError ''invalid call''
      else if state p = 3 then panicError ''the document is closed''
      else Inr p)"

definition Link :: "Fpdf \<Rightarrow> real \<Rightarrow> real \<Rightarrow> real \<Rightarrow> real \<Rightarrow> iface \<Rightarrow> Fpdf" where
  "Link p x y w h link =
     p\<lparr>pageLinks := (pageLinks p)(page p := pageLinks p (page p) @
         [[IFloat (x * p_k p), IFloat (hPt p - y * p_k p), IFloat (w * p_k p),
           IFloat (h * p_k p), link]])\<rparr>"

text \<open>\<^verbatim>\<open>filepath.Base\<close> with the separator \<^verbatim>\<open>/\<close>.\<close>

definition filepath_Base :: "string \<Rightarrow> string" where
  "filepath_Base path =
     (if path = [] then ''.''
      else (let t = rev (dropWhile (\<lambda>c. c = CHR ''/'') (rev path)) in
            if t = [] then ''/'' else rev (takeWhile (\<lambda>c. c \<noteq> CHR ''/'') (rev t))))"

definition loadFontAsset :: "Fpdf \<Rightarrow> string \<Rightarrow> pdfFont option" where
  "loadFontAsset p file = map_of (assetFonts p) (ToLower (filepath_Base file))"

text \<open>
  \<^verbatim>\<open>AddFont\<close>. The registry \<^verbatim>\<open>p.fonts\<close> gets a copy of the asset with \<^verbatim>\<open>i = len(p.fonts) + 1\<close>;
  the argument \<^verbatim>\<open>dir\<close> is only stored in a local variable.
\<close>

definition AddFont :: "Fpdf \<Rightarrow> string \<Rightarrow> string \<Rightarrow> string \<Rightarrow> string \<Rightarrow> error + Fpdf" where
  "AddFont p family0 style0 file0 dir =
     (let family = ToLower (TrimSpace family0);
          file = (if file0 = [] then ReplaceAll family '' '' [] @ ToLower style0 @ ''.php'' else file0);
          style1 = ToUpper style0;
          style = (if style1 = ''IB'' then ''BI'' else style1);
          fontkey = family @ style
      in if map_of (fonts p) fontkey \<noteq> None then Inr p
         else if Contains file ''/'' \<or> Contains file [CHR 0x5C]
           then panicError (''incorrect font definition file name: '' @ file)
         else (case loadFontAsset p file of
                 None \<Rightarrow> panicError (''could not load embedded font definition: '' @ file)
               | Some info \<Rightarrow>
                   Inr (p\<lparr>fonts := AList.update fontkey (info\<lparr>f_i := int (length (fonts p)) + 1\<rparr>)
                                     (fonts p)\<rparr>)))"

text \<open>
  \<^verbatim>\<open>SetFont\<close>: the normalisation of the arguments up to the early return (\<open>SetFont\<close>), the
  lookup in the registry with the registration of a core font (\<open>SetFont_register\<close>), and the
  assignments after it (\<open>SetFont_apply\<close>). \<^verbatim>\<open>p.currentFont\<close> is a pointer into the registry; the model keeps a copy of the
  font (the only field written later through the registry is the object number \<^verbatim>\<open>n\<close>, which
  nothing reads through \<^verbatim>\<open>currentFont\<close>). Reading \<^verbatim>\<open>p.currentFont.i\<close> through a nil pointer is a
  run-time panic.
\<close>

definition SetFont_register :: "Fpdf \<Rightarrow> string \<Rightarrow> string \<Rightarrow> error + (Fpdf \<times> string \<times> string)" where
  "SetFont_register p family0 style0 =
     (if map_of (fonts p) (family0 @ style0) = None then
        (let family = (if family0 = ''arial'' then ''helvetica'' else family0) in
         if family \<in> set (coreFonts p) then
           (let style = (if family = ''symbol'' \<or> family = ''zapfdingbats'' then [] else style0) in
            bindE (if map_of (fonts p) (family @ style) = None
                   then AddFont p family style [] [] else Inr p)
              (\<lambda>q. Inr (q, family, style)))
         else panicError (''undefined font: '' @ family @ '' '' @ style0))
      else Inr (p, family0, style0))"

definition SetFont_apply :: "Fpdf \<Rightarrow> string \<Rightarrow> string \<Rightarrow> real \<Rightarrow> error + Fpdf" where
  "SetFont_apply q family style sz =
     (let q1 = q\<lparr>fontFamily := family, fontStyle := style, fontSizePt := sz,
                fontSize := sz / p_k q, currentFont := map_of (fonts q) (family @ style)\<rparr>
      in if page q1 > 0 then
           (case currentFont q1 of
              None \<Rightarrow> Inl (Panic ''runtime error: invalid memory address or nil pointer dereference'')
            | Some f \<Rightarrow> out q1 [Lit ''BT /F'', D (f_i f), Lit '' '', F2 (fontSizePt q1), Lit '' Tf ET''])
         else Inr q1)"

definition SetFont_select :: "Fpdf \<Rightarrow> string \<Rightarrow> string \<Rightarrow> real \<Rightarrow> error + Fpdf" where
  "SetFont_select p family0 style0 sz =
     bindE (SetFont_register p family0 style0)
       (\<lambda>r. SetFont_apply (fst r) (fst (snd r)) (snd (snd r)) sz)"

definition SetFont :: "Fpdf \<Rightarrow> string \<Rightarrow> string \<Rightarrow> real \<Rightarrow> error + Fpdf" where
  "SetFont p family0 style0 size0 =
     (let family = (if family0 = [] then fontFamily p else ToLower family0);
          style1 = ToUpper style0;
          ul = Contains style1 ''U'';
          style2 = (if ul then ReplaceAll style1 ''U'' [] else style1);
          style = (if style2 = ''IB'' then ''BI'' else style2);
          sz = (if size0 = 0 then fontSizePt p else size0);
          p1 = p\<lparr>underline := ul\<rparr>
      in if fontFamily p1 = family \<and> fontStyle p1 = style \<and> fontSizePt p1 = sz then Inr p1
         else SetFont_select p1 family style sz)"

text \<open>
  \<^verbatim>\<open>beginPage\<close>, in the blocks of the source: the new page and the cursor, the change of the
  page size (\<open>orientation\<close> and \<open>ps\<close> are the locals of the source), and the entries of
  \<^verbatim>\<open>pageInfo\<close>.
\<close>

definition beginPage_start :: "Fpdf \<Rightarrow> Fpdf" where
  "beginPage_start p =
     p\<lparr>page := page p + 1, pages := (pages p)(page p + 1 := []),
       pageLinks := (pageLinks p)(page p + 1 := []), state := 2,
       p_x := lMargin p, p_y := tMargin p, fontFamily := []\<rparr>"

definition beginPage_resize :: "Fpdf \<Rightarrow> string \<Rightarrow> real \<times> real \<Rightarrow> Fpdf" where
  "beginPage_resize p orientation ps =
     (if orientation \<noteq> curOrientation p \<or> ps \<noteq> curPageSize p then
        (let w = (if orientation = ''P'' then fst ps else snd ps);
             h = (if orientation = ''P'' then snd ps else fst ps)
         in p\<lparr>p_w := w, p_h := h, wPt := w * p_k p, hPt := h * p_k p,
              pageBreakTrigger := h - bMargin p, curOrientation := orientation,
              curPageSize := ps\<rparr>)
      else p)"

definition beginPage_size :: "Fpdf \<Rightarrow> string \<Rightarrow> real \<times> real \<Rightarrow> Fpdf" where
  "beginPage_size p orientation ps =
     (if orientation \<noteq> defOrientation p \<or> ps \<noteq> defPageSize p
      then p\<lparr>pageInfo := (pageInfo p)(page p := (pageInfo p (page p))\<lparr>pi_size := Some (wPt p, hPt p)\<rparr>)\<rparr>
      else p)"

definition beginPage_rotation :: "Fpdf \<Rightarrow> int \<Rightarrow> Fpdf" where
  "beginPage_rotation p rotation =
     (if rotation \<noteq> 0
      then p\<lparr>pageInfo := (pageInfo p)(page p := (pageInfo p (page p))\<lparr>pi_rotation := Some rotation\<rparr>),
             curRotation := rotation\<rparr>
      else p\<lparr>curRotation := rotation\<rparr>)"

definition beginPage :: "Fpdf \<Rightarrow> string \<Rightarrow> string \<Rightarrow> int \<Rightarrow> Fpdf" where
  "beginPage p0 orientation0 psize rotation =
     (let p = beginPage_start p0;
          orientation = (if orientation0 = [] then defOrientation p
                         else ToUpper (string_of_byte (hd orientation0)));
          ps = (if psize = [] then defPageSize p else getPageSize p psize)
      in beginPage_rotation (beginPage_size (beginPage_resize p orientation ps) orientation ps) rotation)"

definition endPage :: "Fpdf \<Rightarrow> Fpdf" where
  "endPage p = p\<lparr>state := 1\<rparr>"

text \<open>
  The header and footer hooks are closures stored in the struct, which run on the same
  struct. The model takes them as parameters of every operation that can reach \<^verbatim>\<open>AddPage\<close>:
  a hook is any function from the state to a panic or a new state.
\<close>

record hooks =
  headerFunc :: "(Fpdf \<Rightarrow> error + Fpdf) option"
  footerFunc :: "(Fpdf \<Rightarrow> error + Fpdf) option"

definition Header :: "hooks \<Rightarrow> Fpdf \<Rightarrow> error + Fpdf" where
  "Header hk p = (case headerFunc hk of None \<Rightarrow> Inr p | Some f \<Rightarrow> f p)"

definition Footer :: "hooks \<Rightarrow> Fpdf \<Rightarrow> error + Fpdf" where
  "Footer hk p = (case footerFunc hk of None \<Rightarrow> Inr p | Some f \<Rightarrow> f p)"

text \<open>\<^verbatim>\<open>AddPage\<close>: the part up to \<^verbatim>\<open>p.Header()\<close>, and the part after it.\<close>

definition AddPage_restore ::
  "Fpdf \<Rightarrow> string \<Rightarrow> string \<Rightarrow> real \<Rightarrow> real \<Rightarrow> string \<Rightarrow> string \<Rightarrow> string \<Rightarrow> bool \<Rightarrow> error + Fpdf" where
  "AddPage_restore p0 family style fontsize lw dc fc tc cf =
     bindE (if lineWidth p0 \<noteq> lw
            then out (p0\<lparr>lineWidth := lw\<rparr>) [F2 (lw * p_k p0), Lit '' w''] else Inr p0) (\<lambda>p1.
     bindE (if family \<noteq> [] then SetFont p1 family style fontsize else Inr p1) (\<lambda>p2.
     bindE (if drawColor p2 \<noteq> dc then out (p2\<lparr>drawColor := dc\<rparr>) [Lit dc] else Inr p2) (\<lambda>p3.
     bindE (if fillColor p3 \<noteq> fc then out (p3\<lparr>fillColor := fc\<rparr>) [Lit fc] else Inr p3) (\<lambda>p4.
     Inr (p4\<lparr>textColor := tc, colorFlag := cf\<rparr>)))))"

definition AddPage_open ::
  "Fpdf \<Rightarrow> string \<Rightarrow> string \<Rightarrow> int \<Rightarrow> string \<Rightarrow> string \<Rightarrow> real \<Rightarrow> real \<Rightarrow> string \<Rightarrow> string \<Rightarrow> string \<Rightarrow> bool \<Rightarrow> error + Fpdf" where
  "AddPage_open p0 orientation psize rotation family style fontsize lw dc fc tc cf =
     bindE (out (beginPage p0 orientation psize rotation) [Lit ''2 J'']) (\<lambda>p1.
     bindE (out (p1\<lparr>lineWidth := lw\<rparr>) [F2 (lw * p_k p1), Lit '' w'']) (\<lambda>p2.
     bindE (if family \<noteq> [] then SetFont p2 family style fontsize else Inr p2) (\<lambda>p3.
     bindE (if dc \<noteq> ''0 G'' then out (p3\<lparr>drawColor := dc\<rparr>) [Lit dc]
            else Inr (p3\<lparr>drawColor := dc\<rparr>)) (\<lambda>p4.
     bindE (if fc \<noteq> ''0 g'' then out (p4\<lparr>fillColor := fc\<rparr>) [Lit fc]
            else Inr (p4\<lparr>fillColor := fc\<rparr>)) (\<lambda>p5.
     Inr (p5\<lparr>textColor := tc, colorFlag := cf\<rparr>))))))"

definition AddPage :: "hooks \<Rightarrow> Fpdf \<Rightarrow> string \<Rightarrow> string \<Rightarrow> int \<Rightarrow> error + Fpdf" where
  "AddPage hk p orientation psize rotation =
     (if state p = 3 then panicError ''the document is closed''
      else
        (let family = fontFamily p;
             style = fontStyle p @ (if underline p then ''U'' else []);
             fontsize = fontSizePt p;
             lw = lineWidth p; dc = drawColor p; fc = fillColor p; tc = textColor p;
             cf = colorFlag p
         in
         bindE (if page p > 0
                then bindE (Footer hk (p\<lparr>inFooter := True\<rparr>))
                       (\<lambda>q. Inr (endPage (q\<lparr>inFooter := False\<rparr>)))
                else Inr p) (\<lambda>p1.
         bindE (AddPage_open p1 orientation psize rotation family style fontsize lw dc fc tc cf) (\<lambda>p2.
         bindE (Header hk (p2\<lparr>inHeader := True\<rparr>)) (\<lambda>p3.
         AddPage_restore (p3\<lparr>inHeader := False\<rparr>) family style fontsize lw dc fc tc cf)))))"

definition AcceptPageBreak :: "Fpdf \<Rightarrow> bool" where
  "AcceptPageBreak p = autoPageBreak p"

section \<open>Cell\<close>

definition escape :: "string \<Rightarrow> string" where
  "escape s =
     ReplaceAll (ReplaceAll (ReplaceAll (ReplaceAll s [CHR 0x5C] [CHR 0x5C, CHR 0x5C])
        ''('' [CHR 0x5C, CHR ''('']) '')'' [CHR 0x5C, CHR '')'']) [CHR 0x0D] [CHR 0x5C, CHR ''r'']"

definition doUnderline :: "Fpdf \<Rightarrow> real \<Rightarrow> real \<Rightarrow> string \<Rightarrow> frag list" where
  "doUnderline p x y s =
     (case currentFont p of
        None \<Rightarrow> []
      | Some f \<Rightarrow>
          (let w = GetStringWidth p s + p_ws p * real_of_int (Count s (CHR '' '')) in
           [F2 (x * p_k p), Lit '' '', F2 ((p_h p - (y - f_up f / 1000 * fontSize p)) * p_k p),
            Lit '' '', F2 (w * p_k p), Lit '' '', F2 (- f_ut f / 1000 * fontSizePt p),
            Lit '' re f'']))"

text \<open>
  A string built by \<^verbatim>\<open>Sprintf\<close> is empty when every literal piece is empty (a formatted number
  has at least one digit).
\<close>

definition frags_empty :: "frag list \<Rightarrow> bool" where
  "frags_empty fs = list_all (\<lambda>f. case f of Lit s \<Rightarrow> s = [] | _ \<Rightarrow> False) fs"

text \<open>
  \<^verbatim>\<open>Cell\<close>, first block: the automatic page break. \<open>k\<close>, \<open>x\<close> and \<open>ws\<close> are the locals of the
  source, read before \<^verbatim>\<open>AddPage\<close>.
\<close>

definition Cell_pageBreak :: "hooks \<Rightarrow> Fpdf \<Rightarrow> real \<Rightarrow> error + Fpdf" where
  "Cell_pageBreak hk p h =
     (if p_y p + h > pageBreakTrigger p \<and> \<not> inHeader p \<and> \<not> inFooter p \<and> AcceptPageBreak p then
        bindE (if p_ws p > 0 then out (p\<lparr>p_ws := 0\<rparr>) [Lit ''0 Tw''] else Inr p) (\<lambda>p1.
        bindE (AddPage hk p1 (curOrientation p1) [] (curRotation p1)) (\<lambda>p2.
        if p_ws p > 0
        then out (p2\<lparr>p_x := p_x p, p_ws := p_ws p\<rparr>) [F3 (p_ws p * p_k p), Lit '' Tw'']
        else Inr (p2\<lparr>p_x := p_x p\<rparr>)))
      else Inr p)"

text \<open>The rectangle and the border lines (the string \<^verbatim>\<open>s\<close> before the text is added).\<close>

definition Cell_frame :: "real \<Rightarrow> Fpdf \<Rightarrow> real \<Rightarrow> real \<Rightarrow> iface \<Rightarrow> bool \<Rightarrow> frag list" where
  "Cell_frame k p w h border fill =
     (let x = p_x p; y = p_y p; one = (border = IInt 1 \<or> border = IStr ''1'') in
      (if fill \<or> one then
         [F2 (x * k), Lit '' '', F2 ((p_h p - y) * k), Lit '' '', F2 (w * k), Lit '' '',
          F2 (- h * k), Lit '' re '',
          Lit (if fill then (if one then ''B'' else ''f'') else ''S''), Lit '' '']
       else [])
      @ (case border of
           IStr bs \<Rightarrow>
             (if Contains bs ''L'' then
                [F2 (x * k), Lit '' '', F2 ((p_h p - y) * k), Lit '' m '', F2 (x * k), Lit '' '',
                 F2 ((p_h p - (y + h)) * k), Lit '' l S ''] else [])
             @ (if Contains bs ''T'' then
                [F2 (x * k), Lit '' '', F2 ((p_h p - y) * k), Lit '' m '', F2 ((x + w) * k), Lit '' '',
                 F2 ((p_h p - y) * k), Lit '' l S ''] else [])
             @ (if Contains bs ''R'' then
                [F2 ((x + w) * k), Lit '' '', F2 ((p_h p - y) * k), Lit '' m '', F2 ((x + w) * k),
                 Lit '' '', F2 ((p_h p - (y + h)) * k), Lit '' l S ''] else [])
             @ (if Contains bs ''B'' then
                [F2 (x * k), Lit '' '', F2 ((p_h p - (y + h)) * k), Lit '' m '', F2 ((x + w) * k),
                 Lit '' '', F2 ((p_h p - (y + h)) * k), Lit '' l S ''] else [])
         | _ \<Rightarrow> []))"

text \<open>The text operator, for a non-empty text and a selected font.\<close>

definition Cell_dx :: "real \<Rightarrow> Fpdf \<Rightarrow> real \<Rightarrow> real \<Rightarrow> string \<Rightarrow> string \<Rightarrow> real" where
  "Cell_dx k p w h s align =
     (if align = ''R'' then w - cMargin p - GetStringWidth p s
      else if align = ''C'' then (w - GetStringWidth p s) / 2
      else cMargin p)"

definition Cell_textOp :: "real \<Rightarrow> Fpdf \<Rightarrow> real \<Rightarrow> real \<Rightarrow> string \<Rightarrow> frag list" where
  "Cell_textOp k p dx h s =
     (if colorFlag p then [Lit ''q '', Lit (textColor p), Lit '' ''] else [])
     @ [Lit ''BT '', F2 ((p_x p + dx) * k), Lit '' '',
        F2 ((p_h p - (p_y p + 0.5 * h + 0.3 * fontSize p)) * k), Lit '' Td ('', Lit (escape s),
        Lit '') Tj ET'']
     @ (if underline p
        then Lit '' '' # doUnderline p (p_x p + dx) (p_y p + 0.5 * h + 0.3 * fontSize p) s else [])
     @ (if colorFlag p then [Lit '' Q''] else [])"

text \<open>The end of \<^verbatim>\<open>Cell\<close>: the operator is written, then the cursor moves.\<close>

definition Cell_finish :: "Fpdf \<Rightarrow> frag list \<Rightarrow> real \<Rightarrow> real \<Rightarrow> int \<Rightarrow> error + Fpdf" where
  "Cell_finish p s w h lnb =
     bindE (if \<not> frags_empty s then out p s else Inr p) (\<lambda>q.
       Inr (if lnb > 0
            then (if lnb = 1 then q\<lparr>lasth := h, p_y := p_y q + h, p_x := lMargin q\<rparr>
                  else q\<lparr>lasth := h, p_y := p_y q + h\<rparr>)
            else q\<lparr>lasth := h, p_x := p_x q + w\<rparr>))"

definition Cell_draw ::
  "real \<Rightarrow> Fpdf \<Rightarrow> real \<Rightarrow> real \<Rightarrow> string \<Rightarrow> iface \<Rightarrow> int \<Rightarrow> string \<Rightarrow> bool \<Rightarrow> iface \<Rightarrow> error + Fpdf" where
  "Cell_draw k p w0 h s border lnb align fill link =
     (let w = (if w0 = 0 then p_w p - rMargin p - p_x p else w0) in
      if s \<noteq> [] then
        (case currentFont p of
           None \<Rightarrow> panicError ''no font has been set''
         | Some f \<Rightarrow>
             (let dx = Cell_dx k p w h s align;
                  p1 = (if link \<noteq> IStr [] \<and> link \<noteq> INil
                        then Link p (p_x p + dx) (p_y p + 0.5 * h - 0.5 * fontSize p)
                               (GetStringWidth p s) (fontSize p) link
                        else p)
              in Cell_finish p1 (Cell_frame k p w h border fill @ Cell_textOp k p dx h s) w h lnb))
      else Cell_finish p (Cell_frame k p w h border fill) w h lnb)"

definition Cell ::
  "hooks \<Rightarrow> Fpdf \<Rightarrow> real \<Rightarrow> real \<Rightarrow> string \<Rightarrow> iface \<Rightarrow> int \<Rightarrow> string \<Rightarrow> bool \<Rightarrow> iface \<Rightarrow> error + Fpdf" where
  "Cell hk p w h s border lnb align fill link =
     bindE (Cell_pageBreak hk p h) (\<lambda>p1. Cell_draw (p_k p) p1 w h s border lnb align fill link)"


section \<open>MultiCell and Write\<close>

text \<open>
  The block \<^verbatim>\<open>if p.ws > 0 { p.ws = 0; p.out("0 Tw") }\<close>, which \<^verbatim>\<open>MultiCell\<close> runs before every
  line that is not justified and before the last line.
\<close>

definition clearWordSpacing :: "Fpdf \<Rightarrow> error + Fpdf" where
  "clearWordSpacing p = (if p_ws p > 0 then out (p\<lparr>p_ws := 0\<rparr>) [Lit ''0 Tw''] else Inr p)"

text \<open>
  The block of \<^verbatim>\<open>MultiCell\<close> that sets the word spacing of a justified line \<^verbatim>\<open>s[j:sep]\<close>:
  \<^verbatim>\<open>p.ws = (w - 2*p.cMargin - strW) / float64(spaces)\<close>, then \<^verbatim>\<open>p.out(sprintf("%.3F Tw", p.ws*p.k))\<close>.
\<close>

definition justifyLine :: "Fpdf \<Rightarrow> real \<Rightarrow> string \<Rightarrow> string \<Rightarrow> error + Fpdf" where
  "justifyLine p w align line =
     (if align = ''J'' then
        (let spaces = Count line (CHR '' '') in
         if spaces > 0 then
           (let strW = GetStringWidth p line;
                q = p\<lparr>p_ws := (w - 2 * cMargin p - strW) / real_of_int spaces\<rparr>
            in out q [F3 (p_ws q * p_k q), Lit '' Tw''])
         else Inr p)
      else Inr p)"

text \<open>The border strings \<^verbatim>\<open>b\<close> and \<^verbatim>\<open>b2\<close> of \<^verbatim>\<open>MultiCell\<close>.\<close>

definition MultiCell_borders :: "iface \<Rightarrow> string \<times> string" where
  "MultiCell_borders border =
     (if border \<noteq> INil \<and> border \<noteq> IInt 0 \<and> border \<noteq> IStr ''0'' \<and> border \<noteq> IStr [] then
        (if border = IInt 1 \<or> border = IStr ''1'' then (''LRT'', ''LR'')
         else (case border of
                 IStr bs \<Rightarrow>
                   (let b2 = (if Contains bs ''L'' then ''L'' else []) @ (if Contains bs ''R'' then ''R'' else [])
                    in (if Contains bs ''T'' then b2 @ ''T'' else b2, b2))
               | _ \<Rightarrow> ([], [])))
      else ([], []))"

text \<open>The loop variables of \<^verbatim>\<open>MultiCell\<close>; \<^verbatim>\<open>w\<close>, \<^verbatim>\<open>wmax\<close>, \<^verbatim>\<open>b2\<close> and \<^verbatim>\<open>nb\<close> do not change in the loop.\<close>

record mstate =
  m_p :: Fpdf
  m_b :: string
  m_sep :: int
  m_i :: int
  m_j :: int
  m_l :: int
  m_ns :: int
  m_nl :: int

text \<open>The statements after a line has been printed: \<^verbatim>\<open>sep = -1; j = i; l = 0; ns = 0; nl++\<close> and the switch from \<^verbatim>\<open>b\<close> to \<^verbatim>\<open>b2\<close>.\<close>

definition MultiCell_newLine :: "string \<Rightarrow> mstate \<Rightarrow> Fpdf \<Rightarrow> int \<Rightarrow> mstate" where
  "MultiCell_newLine b2 st q i' =
     st\<lparr>m_p := q, m_i := i', m_sep := - 1, m_j := i', m_l := 0, m_ns := 0, m_nl := m_nl st + 1,
        m_b := (if m_b st \<noteq> [] \<and> m_nl st + 1 = 2 then b2 else m_b st)\<rparr>"

text \<open>One iteration of the \<^verbatim>\<open>for i < nb\<close> loop of \<^verbatim>\<open>MultiCell\<close>.\<close>

definition MultiCell_step ::
  "hooks \<Rightarrow> real \<Rightarrow> real \<Rightarrow> string \<Rightarrow> string \<Rightarrow> string \<Rightarrow> bool \<Rightarrow> real \<Rightarrow> mstate \<Rightarrow> error + mstate" where
  "MultiCell_step hk w h s b2 align fill wmax st =
     bindE (byteAt s (m_i st)) (\<lambda>c.
       if c = CHR 0x0A then
         bindE (clearWordSpacing (m_p st)) (\<lambda>p1.
         bindE (slice s (m_j st) (m_i st)) (\<lambda>line.
         bindE (Cell hk p1 w h line (IStr (m_b st)) 2 align fill (IStr [])) (\<lambda>p2.
         Inr (MultiCell_newLine b2 st p2 (m_i st + 1)))))
       else
         (let sep = (if c = CHR '' '' then m_i st else m_sep st);
              ns = (if c = CHR '' '' then m_ns st + 1 else m_ns st);
              l = m_l st + charWidth (m_p st) c
          in if real_of_int l > wmax then
               (if sep = - 1 then
                  (let i' = (if m_i st = m_j st then m_i st + 1 else m_i st) in
                   bindE (clearWordSpacing (m_p st)) (\<lambda>p1.
                   bindE (slice s (m_j st) i') (\<lambda>line.
                   bindE (Cell hk p1 w h line (IStr (m_b st)) 2 align fill (IStr [])) (\<lambda>p2.
                   Inr (MultiCell_newLine b2 st p2 i')))))
                else
                  bindE (slice s (m_j st) sep) (\<lambda>line.
                  bindE (justifyLine (m_p st) w align line) (\<lambda>p1.
                  bindE (Cell hk p1 w h line (IStr (m_b st)) 2 align fill (IStr [])) (\<lambda>p2.
                  Inr (MultiCell_newLine b2 st p2 (sep + 1))))))
             else Inr (st\<lparr>m_sep := sep, m_ns := ns, m_l := l, m_i := m_i st + 1\<rparr>)))"

text \<open>
  The loop. Its termination needs the invariant \<open>j \<le> sep \<le> i\<close>, so it is defined as a partial
  function: \<open>None\<close> would be a loop that never ends; \<open>MultiCell_loop_terminates\<close> below shows
  that from the initial variables the value is never \<open>None\<close>.
\<close>

partial_function (option) MultiCell_loop ::
  "hooks \<Rightarrow> real \<Rightarrow> real \<Rightarrow> string \<Rightarrow> string \<Rightarrow> string \<Rightarrow> bool \<Rightarrow> real \<Rightarrow> int \<Rightarrow> mstate \<Rightarrow> (error + mstate) option" where
  "MultiCell_loop hk w h s b2 align fill wmax nb st =
     (if m_i st < nb then
        (case MultiCell_step hk w h s b2 align fill wmax st of
           Inl e \<Rightarrow> Some (Inl e)
         | Inr st' \<Rightarrow> MultiCell_loop hk w h s b2 align fill wmax nb st')
      else Some (Inr st))"

text \<open>After the loop: the word spacing is cleared, the bottom border added, the last line printed.\<close>

definition MultiCell_finish ::
  "hooks \<Rightarrow> real \<Rightarrow> real \<Rightarrow> string \<Rightarrow> iface \<Rightarrow> string \<Rightarrow> bool \<Rightarrow> mstate \<Rightarrow> error + Fpdf" where
  "MultiCell_finish hk w h s border align fill st =
     bindE (clearWordSpacing (m_p st)) (\<lambda>p1.
     (let b = (if border = IInt 1 \<or> border = IStr ''1'' then m_b st @ ''B''
               else (case border of
                       IStr bs \<Rightarrow> (if Contains bs ''B'' then m_b st @ ''B'' else m_b st)
                     | _ \<Rightarrow> m_b st))
      in bindE (slice s (m_j st) (m_i st)) (\<lambda>line.
         bindE (Cell hk p1 w h line (IStr b) 2 align fill (IStr [])) (\<lambda>p2.
         Inr (p2\<lparr>p_x := lMargin p2\<rparr>)))))"

definition MultiCell ::
  "hooks \<Rightarrow> Fpdf \<Rightarrow> real \<Rightarrow> real \<Rightarrow> string \<Rightarrow> iface \<Rightarrow> string \<Rightarrow> bool \<Rightarrow> (error + Fpdf) option" where
  "MultiCell hk p w0 h text0 border align fill =
     (case currentFont p of
        None \<Rightarrow> Some (panicError ''no font has been set'')
      | Some f \<Rightarrow>
          (let w = (if w0 = 0 then p_w p - rMargin p - p_x p else w0);
               wmax = (w - 2 * cMargin p) * 1000 / fontSize p;
               s = ReplaceAll text0 [CHR 0x0D] [];
               nb = (if s \<noteq> [] \<and> last s = CHR 0x0A then int (length s) - 1 else int (length s));
               bs = MultiCell_borders border
           in case MultiCell_loop hk w h s (snd bs) align fill wmax nb
                     \<lparr>m_p = p, m_b = fst bs, m_sep = - 1, m_i = 0, m_j = 0, m_l = 0, m_ns = 0, m_nl = 1\<rparr> of
                None \<Rightarrow> None
              | Some (Inl e) \<Rightarrow> Some (Inl e)
              | Some (Inr st) \<Rightarrow> Some (MultiCell_finish hk w h s border align fill st)))"

text \<open>The loop variables of \<^verbatim>\<open>Write\<close>; here \<^verbatim>\<open>w\<close> and \<^verbatim>\<open>wmax\<close> change in the loop.\<close>

record wstate =
  w_p :: Fpdf
  w_w :: real
  w_wmax :: real
  w_sep :: int
  w_i :: int
  w_j :: int
  w_l :: int
  w_nl :: int

text \<open>\<^verbatim>\<open>w = p.w - p.rMargin - p.x; wmax = (w - 2*p.cMargin) * 1000 / p.fontSize\<close>, as \<^verbatim>\<open>Write\<close> computes them three times.\<close>

definition Write_budget :: "wstate \<Rightarrow> Fpdf \<Rightarrow> wstate" where
  "Write_budget st q =
     st\<lparr>w_p := q, w_w := p_w q - rMargin q - p_x q,
        w_wmax := (p_w q - rMargin q - p_x q - 2 * cMargin q) * 1000 / fontSize q\<rparr>"

text \<open>
  The statements after a line has been printed: \<^verbatim>\<open>sep = -1; j = i; l = 0\<close>, after the first
  line the return to the left margin with the new budget, and \<^verbatim>\<open>nl++\<close>.
\<close>

definition Write_newLine :: "wstate \<Rightarrow> Fpdf \<Rightarrow> int \<Rightarrow> wstate" where
  "Write_newLine st q i' =
     (let st1 = st\<lparr>w_p := q, w_i := i', w_sep := - 1, w_j := i', w_l := 0\<rparr>;
          st2 = (if w_nl st = 1 then Write_budget st1 (q\<lparr>p_x := lMargin q\<rparr>) else st1)
      in st2\<lparr>w_nl := w_nl st + 1\<rparr>)"

text \<open>One iteration of the \<^verbatim>\<open>for i < nb\<close> loop of \<^verbatim>\<open>Write\<close>.\<close>

definition Write_step :: "hooks \<Rightarrow> real \<Rightarrow> string \<Rightarrow> iface \<Rightarrow> wstate \<Rightarrow> error + wstate" where
  "Write_step hk h s link st =
     bindE (byteAt s (w_i st)) (\<lambda>c.
       if c = CHR 0x0A then
         bindE (slice s (w_j st) (w_i st)) (\<lambda>line.
         bindE (Cell hk (w_p st) (w_w st) h line (IInt 0) 2 [] False link) (\<lambda>p2.
         Inr (Write_newLine st p2 (w_i st + 1))))
       else
         (let sep = (if c = CHR '' '' then w_i st else w_sep st);
              l = w_l st + charWidth (w_p st) c
          in if real_of_int l > w_wmax st then
               (if sep = - 1 then
                  (if p_x (w_p st) > lMargin (w_p st) then
                     Inr ((Write_budget st ((w_p st)\<lparr>p_x := lMargin (w_p st), p_y := p_y (w_p st) + h\<rparr>))
                            \<lparr>w_sep := sep, w_l := l, w_i := w_i st + 1, w_nl := w_nl st + 1\<rparr>)
                   else
                     (let i' = (if w_i st = w_j st then w_i st + 1 else w_i st) in
                      bindE (slice s (w_j st) i') (\<lambda>line.
                      bindE (Cell hk (w_p st) (w_w st) h line (IInt 0) 2 [] False link) (\<lambda>p2.
                      Inr (Write_newLine st p2 i')))))
                else
                  bindE (slice s (w_j st) sep) (\<lambda>line.
                  bindE (Cell hk (w_p st) (w_w st) h line (IInt 0) 2 [] False link) (\<lambda>p2.
                  Inr (Write_newLine st p2 (sep + 1)))))
             else Inr (st\<lparr>w_sep := sep, w_l := l, w_i := w_i st + 1\<rparr>)))"

partial_function (option) Write_loop ::
  "hooks \<Rightarrow> real \<Rightarrow> string \<Rightarrow> iface \<Rightarrow> int \<Rightarrow> wstate \<Rightarrow> (error + wstate) option" where
  "Write_loop hk h s link nb st =
     (if w_i st < nb then
        (case Write_step hk h s link st of
           Inl e \<Rightarrow> Some (Inl e)
         | Inr st' \<Rightarrow> Write_loop hk h s link nb st')
      else Some (Inr st))"

text \<open>After the loop: the rest \<^verbatim>\<open>s[j:]\<close> is printed by a \<^verbatim>\<open>Cell\<close> of width \<^verbatim>\<open>float64(l)/1000*p.fontSize\<close> and \<^verbatim>\<open>ln = 0\<close>.\<close>

definition Write_finish :: "hooks \<Rightarrow> real \<Rightarrow> string \<Rightarrow> iface \<Rightarrow> wstate \<Rightarrow> error + Fpdf" where
  "Write_finish hk h s link st =
     (if w_i st \<noteq> w_j st then
        bindE (slice s (w_j st) (int (length s))) (\<lambda>rest.
          Cell hk (w_p st) (real_of_int (w_l st) / 1000 * fontSize (w_p st)) h rest (IInt 0) 0 []
            False link)
      else Inr (w_p st))"

definition Write :: "hooks \<Rightarrow> Fpdf \<Rightarrow> real \<Rightarrow> string \<Rightarrow> iface \<Rightarrow> (error + Fpdf) option" where
  "Write hk p h text0 link =
     (case currentFont p of
        None \<Rightarrow> Some (panicError ''no font has been set'')
      | Some f \<Rightarrow>
          (let s = ReplaceAll text0 [CHR 0x0D] [] in
           case Write_loop hk h s link (int (length s))
                  (Write_budget \<lparr>w_p = p, w_w = 0, w_wmax = 0, w_sep = - 1, w_i = 0, w_j = 0,
                                 w_l = 0, w_nl = 1\<rparr> p) of
             None \<Rightarrow> None
           | Some (Inl e) \<Rightarrow> Some (Inl e)
           | Some (Inr st) \<Rightarrow> Some (Write_finish hk h s link st)))"


section \<open>Serialisation\<close>

definition put :: "Fpdf \<Rightarrow> string \<Rightarrow> Fpdf" where
  "put p s = p\<lparr>buffer := buffer p @ s @ [CHR 0x0A]\<rparr>"

definition puts :: "Fpdf \<Rightarrow> string list \<Rightarrow> Fpdf" where
  "puts p ss = foldl put p ss"

definition getOffset :: "Fpdf \<Rightarrow> int" where
  "getOffset p = int (length (buffer p))"

text \<open>\<^verbatim>\<open>newObj(forced ...int)\<close>: \<open>None\<close> is the call without an argument.\<close>

definition newObj :: "Fpdf \<Rightarrow> int option \<Rightarrow> Fpdf" where
  "newObj p forced =
     (case forced of
        Some m \<Rightarrow> put (p\<lparr>p_n := max (p_n p) m, offsets := (offsets p)(m := getOffset p)\<rparr>)
                    (Itoa m @ '' 0 obj'')
      | None \<Rightarrow> put (p\<lparr>p_n := p_n p + 1, offsets := (offsets p)(p_n p + 1 := getOffset p)\<rparr>)
                  (Itoa (p_n p + 1) @ '' 0 obj''))"

definition putStream :: "Fpdf \<Rightarrow> string \<Rightarrow> Fpdf" where
  "putStream p data =
     put ((put p ''stream'')\<lparr>buffer := buffer (put p ''stream'') @ data @ [CHR 0x0A]\<rparr>) ''endstream''"

definition flateCompress :: "env \<Rightarrow> string \<Rightarrow> string" where
  "flateCompress e data = zlibCompress e data"

definition putStreamObject :: "env \<Rightarrow> Fpdf \<Rightarrow> string \<Rightarrow> Fpdf" where
  "putStreamObject e p data0 =
     (let data = (if compress p then flateCompress e data0 else data0);
          entries = (if compress p then ''/Filter /FlateDecode '' else [])
                    @ ''/Length '' @ Itoa (int (length data))
      in put (putStream (put (newObj p None) (''<<'' @ entries @ ''>>'')) data) ''endobj'')"

text \<open>
  \<^verbatim>\<open>toInt\<close> and \<^verbatim>\<open>toFloat\<close>. The conversion \<^verbatim>\<open>int(val)\<close> of a float truncates towards zero;
  \<^verbatim>\<open>strconv.Atoi\<close> and \<^verbatim>\<open>strconv.ParseFloat\<close> (errors ignored by the code) are parameters.
\<close>

record parsers =
  strconvAtoi :: "string \<Rightarrow> int"
  strconvParseFloat :: "string \<Rightarrow> real"

definition trunc :: "real \<Rightarrow> int" where
  "trunc v = (if v \<ge> 0 then \<lfloor>v\<rfloor> else \<lceil>v\<rceil>)"

fun toInt :: "parsers \<Rightarrow> iface \<Rightarrow> int" where
  "toInt ps (IInt v) = v"
| "toInt ps (IFloat v) = trunc v"
| "toInt ps (IStr s) = strconvAtoi ps s"
| "toInt ps v = 0"

fun toFloat :: "parsers \<Rightarrow> iface \<Rightarrow> real" where
  "toFloat ps (IFloat v) = v"
| "toFloat ps (IInt v) = real_of_int v"
| "toFloat ps (IStr s) = strconvParseFloat ps s"
| "toFloat ps v = 0"

text \<open>An element of a \<^verbatim>\<open>[]interface{}\<close>; out of range is a run-time panic.\<close>

definition elemAt :: "iface list \<Rightarrow> nat \<Rightarrow> error + iface" where
  "elemAt xs i = (if i < length xs then Inr (xs ! i) else Inl (Panic ''runtime error: index out of range''))"

text \<open>A loop over a list whose body can panic.\<close>

fun foldE :: "('s \<Rightarrow> 'a \<Rightarrow> error + 's) \<Rightarrow> 'a list \<Rightarrow> 's \<Rightarrow> error + 's" where
  "foldE f [] s = Inr s"
| "foldE f (x # xs) s = bindE (f s x) (foldE f xs)"

text \<open>
  First pass of \<^verbatim>\<open>putPages\<close>: the local counter \<^verbatim>\<open>n\<close> starts at \<^verbatim>\<open>p.n\<close>; every page takes a
  number for its dictionary (stored under "n"), one for its content stream, and one for each
  of its links (appended to the link as its sixth element).
\<close>

fun numberLinks :: "int \<Rightarrow> iface list list \<Rightarrow> int \<times> iface list list" where
  "numberLinks m [] = (m, [])"
| "numberLinks m (l # ls) =
     (case numberLinks (m + 1) ls of (m', ls') \<Rightarrow> (m', (l @ [IInt (m + 1)]) # ls'))"

definition numberPage :: "Fpdf \<times> int \<Rightarrow> int \<Rightarrow> Fpdf \<times> int" where
  "numberPage pn i =
     (case pn of (p, m) \<Rightarrow>
        (case numberLinks (m + 2) (pageLinks p i) of (m', ls) \<Rightarrow>
           (p\<lparr>pageInfo := (pageInfo p)(i := (pageInfo p i)\<lparr>pi_n := Some (m + 1)\<rparr>),
              pageLinks := (pageLinks p)(i := ls)\<rparr>, m')))"

definition numberPages :: "Fpdf \<Rightarrow> Fpdf" where
  "numberPages p = fst (foldl numberPage (p, p_n p) [1..page p])"

text \<open>\<^verbatim>\<open>p.pageInfo[i]["n"]\<close> read through \<^verbatim>\<open>toInt\<close>: a missing key is nil, and \<^verbatim>\<open>toInt(nil)\<close> is 0.\<close>

definition pageObj :: "Fpdf \<Rightarrow> int \<Rightarrow> int" where
  "pageObj p i = (case pi_n (pageInfo p i) of None \<Rightarrow> 0 | Some m \<Rightarrow> m)"

definition isASCII :: "string \<Rightarrow> bool" where
  "isASCII s = list_all (\<lambda>c. (of_char c :: nat) \<le> 127) s"

definition utf8ToUTF16BEWithBOM :: "env \<Rightarrow> string \<Rightarrow> string" where
  "utf8ToUTF16BEWithBOM e s =
     [CHR 0xFE, CHR 0xFF] @
     concat (map (\<lambda>r. (let r' = (if r > 0xFFFF then 63 else r) in [char_of (r' div 256), char_of (r' mod 256)]))
                 (runes e s))"

definition textString :: "env \<Rightarrow> string \<Rightarrow> string" where
  "textString e s = ''('' @ escape (if isASCII s then s else utf8ToUTF16BEWithBOM e s) @ '')''"

definition putLink :: "env \<Rightarrow> parsers \<Rightarrow> Fpdf \<Rightarrow> iface list \<Rightarrow> error + Fpdf" where
  "putLink e ps p0 pl =
     (let p = newObj p0 None in
      bindE (elemAt pl 0) (\<lambda>v0. bindE (elemAt pl 1) (\<lambda>v1.
      bindE (elemAt pl 2) (\<lambda>v2. bindE (elemAt pl 3) (\<lambda>v3.
      bindE (elemAt pl 4) (\<lambda>v4.
        (let x = toFloat ps v0; y = toFloat ps v1; w = toFloat ps v2; h = toFloat ps v3;
             rect = render e [F2 x, Lit '' '', F2 y, Lit '' '', F2 (x + w), Lit '' '', F2 (y - h)];
             s = ''<</Type /Annot /Subtype /Link /Rect ['' @ rect @ ''] /Border [0 0 0] '';
             s' = (case v4 of
                     IStr uri \<Rightarrow> s @ ''/A <</S /URI /URI '' @ textString e uri @ ''>>>>''
                   | _ \<Rightarrow>
                      (let dst = links p (toInt ps v4);
                           pg = trunc (fst dst);
                           y2 = snd dst;
                           hPage = (case pi_size (pageInfo p pg) of None \<Rightarrow> hPt p | Some sz \<Rightarrow> snd sz)
                       in s @ render e [Lit ''/Dest ['', D (pageObj p pg), Lit '' 0 R /XYZ 0 '',
                                        F2 (hPage - y2 * p_k p), Lit '' null]>>'']))
         in Inr (put (put p s') ''endobj''))))))))"

definition putLinks :: "env \<Rightarrow> parsers \<Rightarrow> Fpdf \<Rightarrow> int \<Rightarrow> error + Fpdf" where
  "putLinks e ps p m = foldE (putLink e ps) (pageLinks p m) p"

text \<open>The string \<^verbatim>\<open>/Annots [...]\<close> of a page: \<^verbatim>\<open>pl[5]\<close> of every link.\<close>

fun annotRefs :: "parsers \<Rightarrow> iface list list \<Rightarrow> error + string" where
  "annotRefs ps [] = Inr []"
| "annotRefs ps (pl # pls) =
     bindE (elemAt pl 5) (\<lambda>v. bindE (annotRefs ps pls) (\<lambda>r. Inr (Itoa (toInt ps v) @ '' 0 R '' @ r)))"

text \<open>\<^verbatim>\<open>strings.Join(p.pages[n], "\n")\<close> on the rendered operators.\<close>

fun Join :: "string list \<Rightarrow> string \<Rightarrow> string" where
  "Join [] sep = []"
| "Join [x] sep = x"
| "Join (x # y # ys) sep = x @ sep @ Join (y # ys) sep"

definition putPage :: "env \<Rightarrow> parsers \<Rightarrow> Fpdf \<Rightarrow> int \<Rightarrow> error + Fpdf" where
  "putPage e ps p0 m =
     (let p1 = puts (newObj p0 None) [''<</Type /Page'', ''/Parent 1 0 R''];
          p2 = (case pi_size (pageInfo p1 m) of
                  None \<Rightarrow> p1
                | Some sz \<Rightarrow> put p1 (render e [Lit ''/MediaBox [0 0 '', F2 (fst sz), Lit '' '', F2 (snd sz), Lit '']'']));
          p3 = (case pi_rotation (pageInfo p2 m) of
                  None \<Rightarrow> p2
                | Some rot \<Rightarrow> put p2 (''/Rotate '' @ Itoa rot));
          p4 = put p3 ''/Resources 2 0 R''
      in bindE (if length (pageLinks p4 m) > 0
                then bindE (annotRefs ps (pageLinks p4 m)) (\<lambda>r. Inr (put p4 (''/Annots ['' @ r @ '']'')))
                else Inr p4) (\<lambda>p5.
         (let p6 = (if withAlpha p5
                    then put p5 ''/Group <</Type /Group /S /Transparency /CS /DeviceRGB>>'' else p5);
              p7 = puts p6 [''/Contents '' @ Itoa (p_n p6 + 1) @ '' 0 R>>'', ''endobj''];
              content0 = Join (map (render e) (pages p7 m)) [CHR 0x0A] @ [CHR 0x0A];
              content = (if aliasNbPages p7 \<noteq> []
                         then ReplaceAll content0 (aliasNbPages p7) (Itoa (page p7)) else content0)
          in putLinks e ps (putStreamObject e p7 content) m)))"

definition putPages :: "env \<Rightarrow> parsers \<Rightarrow> Fpdf \<Rightarrow> error + Fpdf" where
  "putPages e ps p0 =
     bindE (foldE (putPage e ps) [1..page p0] (numberPages p0)) (\<lambda>p.
       (let kids = ''/Kids ['' @ concat (map (\<lambda>i. Itoa (pageObj p i) @ '' 0 R '') [1..page p]) @ '']'';
            w = (if defOrientation p \<noteq> ''P'' then snd (defPageSize p) else fst (defPageSize p));
            h = (if defOrientation p \<noteq> ''P'' then fst (defPageSize p) else snd (defPageSize p))
        in Inr (puts (newObj p (Some 1))
                 [''<</Type /Pages'', kids, ''/Count '' @ Itoa (page p),
                  render e [Lit ''/MediaBox [0 0 '', F2 (w * p_k p), Lit '' '', F2 (h * p_k p), Lit '']''],
                  ''>>'', ''endobj''])))"

text \<open>\<^verbatim>\<open>toUnicodeCMap\<close>: the keys are sorted; a range and a single code point have their own lists.\<close>

definition cmapRanges :: "(int \<times> uvval) list \<Rightarrow> string list" where
  "cmapRanges uv =
     concat (map (\<lambda>c. case map_of uv c of
                        Some (UVRange start cnt) \<Rightarrow>
                          [''<'' @ fmt_padded 16 2 c @ ''> <'' @ fmt_padded 16 2 (c + cnt - 1) @ ''> <''
                           @ fmt_padded 16 4 start @ ''>'' @ [CHR 0x0A]]
                      | _ \<Rightarrow> [])
                 (sort (map fst uv)))"

definition cmapChars :: "(int \<times> uvval) list \<Rightarrow> string list" where
  "cmapChars uv =
     concat (map (\<lambda>c. case map_of uv c of
                        Some (UVInt v) \<Rightarrow>
                          [''<'' @ fmt_padded 16 2 c @ ''> <'' @ fmt_padded 16 4 v @ ''>'' @ [CHR 0x0A]]
                      | _ \<Rightarrow> [])
                 (sort (map fst uv)))"

definition toUnicodeCMap :: "(int \<times> uvval) list \<Rightarrow> string" where
  "toUnicodeCMap uv =
     (let nl = [CHR 0x0A]; ranges = cmapRanges uv; chars = cmapChars uv in
      ''/CIDInit /ProcSet findresource begin'' @ nl @ ''12 dict begin'' @ nl @ ''begincmap'' @ nl
      @ ''/CIDSystemInfo'' @ nl @ ''<</Registry (Adobe)'' @ nl @ ''/Ordering (UCS)'' @ nl
      @ ''/Supplement 0'' @ nl @ ''>> def'' @ nl
      @ ''/CMapName /Adobe-Identity-UCS def'' @ nl @ ''/CMapType 2 def'' @ nl
      @ ''1 begincodespacerange'' @ nl @ ''<00> <FF>'' @ nl @ ''endcodespacerange'' @ nl
      @ (if length ranges > 0
         then Itoa (int (length ranges)) @ '' beginbfrange'' @ nl @ concat ranges @ ''endbfrange'' @ nl
         else [])
      @ (if length chars > 0
         then Itoa (int (length chars)) @ '' beginbfchar'' @ nl @ concat chars @ ''endbfchar'' @ nl
         else [])
      @ ''endcmap'' @ nl @ ''CMapName currentdict /CMap defineresource pop'' @ nl @ ''end'' @ nl @ ''end'')"

text \<open>One iteration of the loop of \<^verbatim>\<open>putFonts\<close>, for the entry \<open>(k, f)\<close> of the registry.\<close>

definition putFont :: "env \<Rightarrow> Fpdf \<Rightarrow> string \<times> pdfFont \<Rightarrow> Fpdf" where
  "putFont e p0 kf =
     (case kf of (k, f) \<Rightarrow>
       (let p1 = (if length (f_uv f) > 0 then putStreamObject e p0 (toUnicodeCMap (f_uv f)) else p0);
            toUnicodeObj = (if length (f_uv f) > 0 then p_n p1 else 0);
            p2 = newObj p1 None;
            p3 = p2\<lparr>fonts := AList.update k (f\<lparr>f_n := p_n p2\<rparr>) (fonts p2)\<rparr>
        in puts p3
             ([''<</Type /Font'', ''/BaseFont /'' @ f_name f, ''/Subtype /Type1'']
              @ (if f_name f \<noteq> ''Symbol'' \<and> f_name f \<noteq> ''ZapfDingbats'' then [''/Encoding /WinAnsiEncoding''] else [])
              @ (if toUnicodeObj > 0 then [''/ToUnicode '' @ Itoa toUnicodeObj @ '' 0 R''] else [])
              @ [''>>'', ''endobj''])))"

definition putFonts :: "env \<Rightarrow> Fpdf \<Rightarrow> Fpdf" where
  "putFonts e p = foldl (putFont e) p (rangeFonts e (fonts p))"

definition putImage :: "Fpdf \<Rightarrow> string \<times> pdfImage \<Rightarrow> Fpdf" where
  "putImage p0 ki =
     (case ki of (k, info) \<Rightarrow>
       (let p1 = newObj p0 None;
            p2 = p1\<lparr>images := AList.update k (info\<lparr>img_n := p_n p1\<rparr>) (images p1)\<rparr>;
            p3 = puts p2
                  ([''<</Type /XObject'', ''/Subtype /Image'', ''/Width '' @ Itoa (img_w info),
                    ''/Height '' @ Itoa (img_h info), ''/ColorSpace /'' @ img_cs info,
                    ''/BitsPerComponent '' @ Itoa (img_bpc info)]
                   @ (if img_f info \<noteq> [] then [''/Filter /'' @ img_f info] else [])
                   @ [''/Length '' @ Itoa (int (length (img_data info))) @ ''>>''])
        in put (putStream p3 (img_data info)) ''endobj''))"

definition putImages :: "env \<Rightarrow> Fpdf \<Rightarrow> Fpdf" where
  "putImages e p = foldl putImage p (rangeImages e (images p))"

definition putResourceDict :: "env \<Rightarrow> Fpdf \<Rightarrow> Fpdf" where
  "putResourceDict e p =
     puts p
       ([''/ProcSet [/PDF /Text /ImageB /ImageC /ImageI]'', ''/Font <<'']
        @ map (\<lambda>(k, f). ''/F'' @ Itoa (f_i f) @ '' '' @ Itoa (f_n f) @ '' 0 R'') (rangeFonts2 e (fonts p))
        @ [''>>'', ''/XObject <<'']
        @ map (\<lambda>(k, im). ''/I'' @ Itoa (img_i im) @ '' '' @ Itoa (img_n im) @ '' 0 R'') (rangeImages2 e (images p))
        @ [''>>''])"

definition putResources :: "env \<Rightarrow> Fpdf \<Rightarrow> Fpdf" where
  "putResources e p =
     puts (putResourceDict e (put (newObj (putImages e (putFonts e p)) (Some 2)) ''<<''))
       [''>>'', ''endobj'']"

text \<open>
  \<^verbatim>\<open>putInfo\<close>. \<^verbatim>\<open>nowFormatted\<close> is \<^verbatim>\<open>p.creationDate.Format("20060102150405-0700")\<close>, at least 19
  bytes long, so that the two slices of it are in range.
\<close>

definition putInfo :: "env \<Rightarrow> Fpdf \<Rightarrow> Fpdf" where
  "putInfo e p0 =
     (let date = nowFormatted e;
          p = p0\<lparr>metadata := AList.update ''CreationDate''
                   (''D:'' @ take (length date - 2) date @ [CHR 0x27] @ drop (length date - 2) date @ [CHR 0x27])
                   (metadata p0)\<rparr>
      in puts p (map (\<lambda>k. ''/'' @ k @ '' '' @ textString e (case map_of (metadata p) k of None \<Rightarrow> [] | Some v \<Rightarrow> v))
                     (sort (map fst (metadata p)))))"

definition putCatalog :: "env \<Rightarrow> Fpdf \<Rightarrow> Fpdf" where
  "putCatalog e p =
     (let m = pageObj p 1;
          p1 = puts p [''/Type /Catalog'', ''/Pages 1 0 R''];
          p2 = (case zoomMode p1 of
                  IStr v \<Rightarrow>
                    (let s = ToLower v in
                     if s = ''fullpage'' then put p1 (''/OpenAction ['' @ Itoa m @ '' 0 R /Fit]'')
                     else if s = ''fullwidth'' then put p1 (''/OpenAction ['' @ Itoa m @ '' 0 R /FitH null]'')
                     else if s = ''real'' then put p1 (''/OpenAction ['' @ Itoa m @ '' 0 R /XYZ null null 1]'')
                     else p1)
                | IFloat v \<Rightarrow>
                    put p1 (render e [Lit ''/OpenAction ['', D m, Lit '' 0 R /XYZ null null '', F2 (v / 100), Lit '']''])
                | _ \<Rightarrow> p1)
      in if layoutMode p2 = ''single'' then put p2 ''/PageLayout /SinglePage''
         else if layoutMode p2 = ''continuous'' then put p2 ''/PageLayout /OneColumn''
         else if layoutMode p2 = ''two'' then put p2 ''/PageLayout /TwoColumnLeft''
         else p2)"

definition putHeader :: "Fpdf \<Rightarrow> Fpdf" where
  "putHeader p = put p (''%PDF-'' @ pdfVersion p)"

definition putTrailer :: "Fpdf \<Rightarrow> Fpdf" where
  "putTrailer p =
     puts p [''/Size '' @ Itoa (p_n p + 1), ''/Root '' @ Itoa (p_n p) @ '' 0 R'',
             ''/Info '' @ Itoa (p_n p - 1) @ '' 0 R'']"

text \<open>The cross-reference section and the trailer, written by \<^verbatim>\<open>endDoc\<close> after the catalog.\<close>

definition putXref :: "Fpdf \<Rightarrow> Fpdf" where
  "putXref p =
     (let offset = getOffset p;
          p1 = puts p ([''xref'', ''0 '' @ Itoa (p_n p + 1), ''0000000000 65535 f '']
                       @ map (\<lambda>i. fmt_padded 10 10 (offsets p i) @ '' 00000 n '') [1..p_n p]);
          p2 = puts (putTrailer (puts p1 [''trailer'', ''<<''])) [''>>'', ''startxref'', Itoa offset, ''%%EOF'']
      in p2\<lparr>state := 3\<rparr>)"

definition endDoc :: "env \<Rightarrow> parsers \<Rightarrow> Fpdf \<Rightarrow> error + Fpdf" where
  "endDoc e ps p =
     bindE (putPages e ps (putHeader p)) (\<lambda>p1.
       (let p2 = puts (putInfo e (put (newObj (putResources e p1) None) ''<<'')) [''>>'', ''endobj''];
            p3 = puts (putCatalog e (put (newObj p2 None) ''<<'')) [''>>'', ''endobj'']
        in Inr (putXref p3)))"

definition Close :: "hooks \<Rightarrow> env \<Rightarrow> parsers \<Rightarrow> Fpdf \<Rightarrow> error + Fpdf" where
  "Close hk e ps p =
     (if state p = 3 then Inr p
      else
        bindE (if page p = 0 then AddPage hk p [] [] 0 else Inr p) (\<lambda>p1.
        bindE (Footer hk (p1\<lparr>inFooter := True\<rparr>)) (\<lambda>p2.
        endDoc e ps (endPage (p2\<lparr>inFooter := False\<rparr>)))))"

text \<open>
  The cross-reference entry of object \<open>m\<close> points at the framing line of \<open>m\<close>: the bytes of the
  buffer from \<open>offsets p m\<close> on are \<^verbatim>\<open>"m 0 obj\n"\<close>, and they start a line.
\<close>

definition framedAt :: "Fpdf \<Rightarrow> int \<Rightarrow> bool" where
  "framedAt p m =
     (0 \<le> offsets p m
      \<and> take (length (Itoa m @ '' 0 obj'') + 1) (drop (nat (offsets p m)) (buffer p))
          = Itoa m @ '' 0 obj'' @ [CHR 0x0A]
      \<and> (offsets p m = 0 \<or> buffer p ! (nat (offsets p m) - 1) = CHR 0x0A))"


section \<open>Auxiliary notions for the theorems\<close>

text \<open>A document without header and footer hooks.\<close>

definition nohooks :: hooks where
  "nohooks = \<lparr>headerFunc = None, footerFunc = None\<rparr>"

text \<open>A call returned normally, and the state it returned.\<close>

definition isOK :: "error + 'a \<Rightarrow> bool" where
  "isOK r = (case r of Inl e \<Rightarrow> False | Inr v \<Rightarrow> True)"

definition the_doc :: "error + Fpdf \<Rightarrow> Fpdf" where
  "the_doc r = (case r of Inl e \<Rightarrow> zeroFpdf | Inr p \<Rightarrow> p)"

text \<open>
  Example documents: \<^verbatim>\<open>NewFpdf("P", "mm", "A4")\<close>, the same after \<^verbatim>\<open>AddPage("", "", 0)\<close>, and
  after \<^verbatim>\<open>SetFont("Courier", "", 12)\<close>.
\<close>

definition doc0 :: Fpdf where
  "doc0 = NewFpdf ''P'' ''mm'' ''A4''"

definition doc1 :: Fpdf where
  "doc1 = the_doc (AddPage nohooks doc0 [] [] 0)"

definition doc2 :: Fpdf where
  "doc2 = the_doc (SetFont doc1 ''Courier'' [] 12)"

text \<open>
  The fields that neither \<^verbatim>\<open>out\<close> nor \<^verbatim>\<open>SetFont\<close> writes and that the theorems on the cursor
  need.
\<close>

definition same_frame :: "Fpdf \<Rightarrow> Fpdf \<Rightarrow> bool" where
  "same_frame p q =
     (page q = page p \<and> state q = state p \<and> p_x q = p_x p \<and> p_y q = p_y p \<and> tMargin q = tMargin p
      \<and> p_ws q = p_ws p \<and> p_k q = p_k p)"


section \<open>Theorems: font metrics\<close>





text \<open>
  C10. Without a selected font (\<^verbatim>\<open>p.currentFont == nil\<close>) \<^verbatim>\<open>GetStringWidth\<close> returns 0 for
  every string; the function has no failing path.
\<close>

theorem GetStringWidth_no_font:
  "GetStringWidth (p\<lparr>currentFont := None\<rparr>) s = 0"
  by (simp add: GetStringWidth_def)

end
